theory Spec2Isabelle
  imports Complex_Main "HOL-Library.AList" "HOL-Library.Sublist"
begin

section \<open>Values shared by the two webhook handlers\<close>

text \<open>
  The repository holds two variants of one webhook handler, each exporting \<open>POST\<close>:
  \<^item> the context-tracking variant (form-encoded payload, zod validation, the
    \<open>contextStore\<close> map), modelled below as \<open>POST\<close>;
  \<^item> \<open>src/app/api/whatsapp/route.ts\<close> (JSON payload, no history), modelled as
    \<open>POST_route\<close>.

  Both talk to two external SDK clients. A client call either resolves or rejects with an
  instance of \<open>Error\<close>; the model reads its outcome from an oracle that sees the calls made so
  far and the current call, so that a second identical call may end differently from the
  first. Every call is recorded in the world, in order. A handler runs to its end before
  the next one starts: interleaving of two requests at an \<open>await\<close> is not modelled.
\<close>

datatype role = user | assistant | system

record 'c chat_message =
  role :: role
  content :: 'c

text \<open>The argument of \<open>openai.chat.completions.create\<close>.\<close>

record 'c ChatCompletionCreateParams =
  model :: string
  messages_param :: "'c chat_message list"
  max_tokens :: nat
  temperature :: "rat option"

text \<open>
  What the completion resolves to: \<open>choices[0]?.message?.content\<close> reads the first
  choice, if there is one, its message, if it has one, and the content, which may be null.
\<close>

datatype ChatCompletionMessage = ChatCompletionMessage (content_of: "string option")

datatype Choice = Choice (message_of: "ChatCompletionMessage option")

record ChatCompletion =
  choices :: "Choice list"

text \<open>The argument of \<open>twilioClient.messages.create\<close>.\<close>

record MessageCreateOptions =
  from_msg :: string
  body_msg :: string
  to_msg :: string

text \<open>Values of parsed JSON, and \<open>undefined\<close> for a property that is not there.\<close>

datatype js_value =
    JUndefined
  | JNull
  | JBool bool
  | JNumber rat
  | JString string
  | JArray "js_value list"
  | JObject "(string \<times> js_value) list"

datatype ZodIssueCode = invalid_type | too_small | invalid_string

datatype ZodIssue =
  ZodIssue (code: ZodIssueCode) (path: "string list") (custom_message: "string option")

text \<open>
  What a \<open>catch\<close> clause can receive: a \<open>ZodError\<close> (a subclass of \<open>Error\<close>) with its
  issues, any other \<open>Error\<close> with its message, or a thrown value that is no \<open>Error\<close>.
\<close>

datatype thrown = ZodError (errors: "ZodIssue list") | Error string | NonError

fun instanceof_ZodError :: "thrown \<Rightarrow> bool" where
  "instanceof_ZodError (ZodError _) = True"
| "instanceof_ZodError _ = False"

fun instanceof_Error :: "thrown \<Rightarrow> bool" where
  "instanceof_Error (ZodError _) = True"
| "instanceof_Error (Error _) = True"
| "instanceof_Error NonError = False"

datatype error_details = Issues "ZodIssue list" | Message string

text \<open>
  The bodies the handlers pass to \<open>NextResponse.json\<close>: \<open>{success: true, message?}\<close> or
  \<open>{error, details?}\<close>.
\<close>

datatype response_json =
    Success_json "string option"
  | Error_json string "error_details option"

record NextResponse =
  status :: nat
  json_body :: response_json

datatype FormDataEntryValue = FormString string | FormFile

text \<open>
  A request offers \<open>formData()\<close> and \<open>json()\<close>; each resolves to the parsed body or rejects
  with an \<open>Error\<close> (its message on the left).
\<close>

record NextRequest =
  formData :: "string + (string \<times> FormDataEntryValue) list"
  json :: "string + js_value"

type_synonym Date = int

record ConversationContext =
  id_ctx :: string
  messages :: "string chat_message list"
  createdAt :: Date

datatype log_entry =
    Console_error string thrown
  | Console_log string js_value

text \<open>
  The world a handler runs in. \<open>contextStore\<close> is the module's \<open>Map\<close>: its keys in insertion
  order, each bound to the address of a context object; \<open>heap\<close> holds the objects, so that
  a \<open>push\<close> on a context read from the map is seen through the map. A context object and
  its \<open>messages\<close> array are one cell: the array is created with the object and the field is
  never assigned again.
\<close>

record 'c world =
  contextStore :: "(string \<times> nat) list"
  heap :: "nat \<Rightarrow> ConversationContext"
  next_ref :: nat
  openai_calls :: "'c ChatCompletionCreateParams list"
  twilio_calls :: "MessageCreateOptions list"
  console :: "log_entry list"

text \<open>The environment: \<open>process.env\<close>, the clock and the outcomes of the SDK calls.\<close>

record 'c env =
  TWILIO_PHONE_NUMBER :: "string option"
  new_Date :: Date
  completions_create ::
    "'c ChatCompletionCreateParams list \<Rightarrow> 'c ChatCompletionCreateParams \<Rightarrow> string + ChatCompletion"
  messages_create ::
    "MessageCreateOptions list \<Rightarrow> MessageCreateOptions \<Rightarrow> string + unit"

definition openai_create ::
  "'c env \<Rightarrow> 'c ChatCompletionCreateParams \<Rightarrow> 'c world \<Rightarrow> (string + ChatCompletion) \<times> 'c world" where
  "openai_create e p w =
     (completions_create e (openai_calls w) p, w\<lparr>openai_calls := openai_calls w @ [p]\<rparr>)"

definition twilio_create ::
  "'c env \<Rightarrow> MessageCreateOptions \<Rightarrow> 'c world \<Rightarrow> (string + unit) \<times> 'c world" where
  "twilio_create e m w =
     (messages_create e (twilio_calls w) m, w\<lparr>twilio_calls := twilio_calls w @ [m]\<rparr>)"

definition console_error :: "string \<Rightarrow> thrown \<Rightarrow> 'c world \<Rightarrow> 'c world" where
  "console_error label err w = w\<lparr>console := console w @ [Console_error label err]\<rparr>"

definition console_log :: "string \<Rightarrow> js_value \<Rightarrow> 'c world \<Rightarrow> 'c world" where
  "console_log label v w = w\<lparr>console := console w @ [Console_log label v]\<rparr>"

text \<open>The template literal \<open>`whatsapp:${process.env.TWILIO_PHONE_NUMBER}`\<close>.\<close>

definition whatsapp_sender :: "'c env \<Rightarrow> string" where
  "whatsapp_sender e =
     ''whatsapp:'' @ (case TWILIO_PHONE_NUMBER e of None \<Rightarrow> ''undefined'' | Some n \<Rightarrow> n)"

text \<open>
  \<open>choices[0]?.message?.content || fallback\<close>: the fallback stands in for a missing
  choice, message or content, and for the empty string.
\<close>

definition first_content :: "ChatCompletion \<Rightarrow> string option" where
  "first_content c =
     (case choices c of
        [] \<Rightarrow> None
      | ch # _ \<Rightarrow> (case message_of ch of None \<Rightarrow> None | Some m \<Rightarrow> content_of m))"

definition or_default :: "string option \<Rightarrow> string \<Rightarrow> string" where
  "or_default v d = (case v of None \<Rightarrow> d | Some s \<Rightarrow> if s = [] then d else s)"

section \<open>The context-tracking handler\<close>

subsection \<open>Validation: \<open>WhatsAppMessageSchema\<close>\<close>

record WhatsAppMessage =
  Body :: string
  From :: string

text \<open>\<open>Object.fromEntries\<close>: a later entry overwrites an earlier one with the same name.\<close>

definition fromEntries :: "('k \<times> 'v) list \<Rightarrow> ('k \<rightharpoonup> 'v)" where
  "fromEntries es = foldl (\<lambda>obj (k, v). obj(k \<mapsto> v)) Map.empty es"

text \<open>\<open>Body: z.string().min(1, 'Message cannot be empty')\<close>\<close>

fun check_Body :: "FormDataEntryValue option \<Rightarrow> ZodIssue list" where
  "check_Body (Some (FormString s)) =
     (if length s < 1 then [ZodIssue too_small [''Body''] (Some ''Message cannot be empty'')]
      else [])"
| "check_Body _ = [ZodIssue invalid_type [''Body''] None]"

text \<open>\<open>From: z.string().startsWith('whatsapp:')\<close>\<close>

fun check_From :: "FormDataEntryValue option \<Rightarrow> ZodIssue list" where
  "check_From (Some (FormString s)) =
     (if prefix ''whatsapp:'' s then [] else [ZodIssue invalid_string [''From''] None])"
| "check_From _ = [ZodIssue invalid_type [''From''] None]"

definition WhatsAppMessageSchema_parse ::
  "FormDataEntryValue option \<Rightarrow> FormDataEntryValue option \<Rightarrow> thrown + WhatsAppMessage" where
  "WhatsAppMessageSchema_parse b f =
     (case (check_Body b @ check_From f, b, f) of
        ([], Some (FormString bs), Some (FormString fs)) \<Rightarrow> Inr \<lparr>Body = bs, From = fs\<rparr>
      | (issues, _, _) \<Rightarrow> Inl (ZodError issues))"

subsection \<open>The context store\<close>

definition contextStore_get :: "'c world \<Rightarrow> string \<Rightarrow> nat option" where
  "contextStore_get w k = map_of (contextStore w) k"

definition contextStore_set :: "string \<Rightarrow> nat \<Rightarrow> 'c world \<Rightarrow> 'c world" where
  "contextStore_set k r w = w\<lparr>contextStore := AList.update k r (contextStore w)\<rparr>"

text \<open>An object literal: a new cell at the next free address.\<close>

definition new_object :: "ConversationContext \<Rightarrow> 'c world \<Rightarrow> nat \<times> 'c world" where
  "new_object c w =
     (next_ref w, w\<lparr>heap := (heap w)(next_ref w := c), next_ref := Suc (next_ref w)\<rparr>)"

text \<open>\<open>context.messages.push(m)\<close> on the context at address \<open>r\<close>.\<close>

definition messages_push :: "nat \<Rightarrow> string chat_message \<Rightarrow> 'c world \<Rightarrow> 'c world" where
  "messages_push r m w =
     w\<lparr>heap := (heap w)(r := (heap w r)\<lparr>messages := messages (heap w r) @ [m]\<rparr>)\<rparr>"

definition system_message :: "string chat_message" where
  "system_message =
     \<lparr>role = system,
      content = ''You are a helpful WhatsApp assistant. Provide concise and helpful responses.''\<rparr>"

text \<open>The literal on the right of \<open>contextStore.get(conversationId) || ...\<close>.\<close>

definition new_context :: "string \<Rightarrow> Date \<Rightarrow> ConversationContext" where
  "new_context conversationId now =
     \<lparr>id_ctx = conversationId, messages = [system_message], createdAt = now\<rparr>"

text \<open>The context the store shows under a key.\<close>

definition stored_context :: "'c world \<Rightarrow> string \<Rightarrow> ConversationContext option" where
  "stored_context w k = map_option (heap w) (contextStore_get w k)"

subsection \<open>\<open>generateAIResponse\<close>\<close>

text \<open>\<open>xs.slice(-n)\<close>: the last \<open>n\<close> elements, all of them when there are fewer.\<close>

definition slice_last :: "nat \<Rightarrow> 'a list \<Rightarrow> 'a list" where
  "slice_last n xs = drop (length xs - n) xs"

text \<open>The argument object built for the completion call from \<open>recentMessages\<close>.\<close>

definition completion_params :: "string chat_message list \<Rightarrow> string ChatCompletionCreateParams" where
  "completion_params recentMessages =
     \<lparr>model = ''gpt-3.5-turbo'',
      messages_param = map (\<lambda>msg. \<lparr>role = role msg, content = content msg\<rparr>) recentMessages,
      max_tokens = 150,
      temperature = Some (7 / 10)\<rparr>"

definition generateAIResponse ::
  "string env \<Rightarrow> nat \<Rightarrow> string world \<Rightarrow> string \<times> string world" where
  "generateAIResponse e context w =
     (let recentMessages = slice_last 6 (messages (heap w context))
      in case openai_create e (completion_params recentMessages) w of
           (Inr completion, w') \<Rightarrow>
             (or_default (first_content completion) ''I could not generate a response.'', w')
         | (Inl msg, w') \<Rightarrow>
             (''Sorry, I am unable to generate a response right now.'',
              console_error ''AI Response Generation Error:'' (Error msg) w'))"

subsection \<open>\<open>POST\<close>\<close>

definition apology_message :: "'c env \<Rightarrow> MessageCreateOptions" where
  "apology_message e =
     \<lparr>from_msg = whatsapp_sender e,
      body_msg = ''Sorry, I encountered an error processing your request.'',
      to_msg = ''whatsapp:+1234567890''\<rparr>"

text \<open>
  Lines 50 to 61 of the \<open>try\<close> block: the context stored under the key, or a new
  object, which the map does not hold yet.
\<close>

definition get_or_create :: "string \<Rightarrow> Date \<Rightarrow> 'c world \<Rightarrow> nat \<times> 'c world" where
  "get_or_create conversationId now w =
     (case contextStore_get w conversationId of
        Some r \<Rightarrow> (r, w)
      | None \<Rightarrow> new_object (new_context conversationId now) w)"

text \<open>
  Lines 50 to 79: fetch or create the context, push the user message, ask for the reply,
  push it and store the context. The result is \<open>aiResponse\<close>.
\<close>

definition update_context ::
  "string env \<Rightarrow> WhatsAppMessage \<Rightarrow> string world \<Rightarrow> string \<times> string world" where
  "update_context e validatedData w =
     (let conversationId = From validatedData;
          (context, w1) = get_or_create conversationId (new_Date e) w;
          w2 = messages_push context \<lparr>role = user, content = Body validatedData\<rparr> w1;
          (aiResponse, w3) = generateAIResponse e context w2;
          w4 = messages_push context \<lparr>role = assistant, content = aiResponse\<rparr> w3
      in (aiResponse, contextStore_set conversationId context w4))"

text \<open>The message of the primary send, lines 82 to 86.\<close>

definition reply_message :: "'c env \<Rightarrow> string \<Rightarrow> string \<Rightarrow> MessageCreateOptions" where
  "reply_message e aiResponse conversationId =
     \<lparr>from_msg = whatsapp_sender e, body_msg = aiResponse, to_msg = conversationId\<rparr>"

text \<open>The \<open>try\<close> block: \<open>Inl\<close> is the value it throws.\<close>

definition POST_try ::
  "string env \<Rightarrow> NextRequest \<Rightarrow> string world \<Rightarrow> (thrown + NextResponse) \<times> string world" where
  "POST_try e req w =
     (case formData req of
        Inl msg \<Rightarrow> (Inl (Error msg), w)
      | Inr entries \<Rightarrow>
          (let body = fromEntries entries in
           case WhatsAppMessageSchema_parse (body ''Body'') (body ''From'') of
             Inl zod_error \<Rightarrow> (Inl zod_error, w)
           | Inr validatedData \<Rightarrow>
               (let (aiResponse, w5) = update_context e validatedData w
                in case twilio_create e
                          (reply_message e aiResponse (From validatedData)) w5 of
                     (Inl msg, w6) \<Rightarrow> (Inl (Error msg), w6)
                   | (Inr _, w6) \<Rightarrow>
                       (Inr \<lparr>status = 200, json_body = Success_json None\<rparr>, w6))))"

text \<open>The \<open>catch\<close> clause.\<close>

definition POST_catch ::
  "string env \<Rightarrow> thrown \<Rightarrow> string world \<Rightarrow> (thrown + NextResponse) \<times> string world" where
  "POST_catch e error w =
     (let w1 = console_error ''WhatsApp Bot Error:'' error w in
      if instanceof_ZodError error then
        (Inr \<lparr>status = 400,
              json_body = Error_json ''Invalid request'' (Some (Issues (errors error)))\<rparr>, w1)
      else
        (let w2 =
           (if instanceof_Error error then
              (case twilio_create e (apology_message e) w1 of
                 (Inr _, w') \<Rightarrow> w'
               | (Inl msg, w') \<Rightarrow>
                   console_error ''Failed to send Twilio error message:'' (Error msg) w')
            else w1)
         in (Inr \<lparr>status = 500, json_body = Error_json ''Internal server error'' None\<rparr>, w2)))"

definition POST ::
  "string env \<Rightarrow> NextRequest \<Rightarrow> string world \<Rightarrow> (thrown + NextResponse) \<times> string world" where
  "POST e req w =
     (case POST_try e req w of
        (Inr response, w') \<Rightarrow> (Inr response, w')
      | (Inl error, w') \<Rightarrow> POST_catch e error w')"

text \<open>
  What the first two steps of the \<open>try\<close> block give: the validated data of a request
  that passes validation, nothing for one whose body cannot be read or is refused.
\<close>

definition validated :: "NextRequest \<Rightarrow> WhatsAppMessage option" where
  "validated req =
     (case formData req of
        Inl _ \<Rightarrow> None
      | Inr entries \<Rightarrow>
          (case WhatsAppMessageSchema_parse
                  (fromEntries entries ''Body'') (fromEntries entries ''From'') of
             Inl _ \<Rightarrow> None
           | Inr validatedData \<Rightarrow> Some validatedData))"

subsection \<open>Invariants of the context store\<close>

text \<open>
  What a \<open>Map\<close> of objects guarantees, and what the handler keeps: the keys are distinct,
  no two keys hold the same object, and every address in the map has been allocated.
\<close>

definition store_wf :: "'c world \<Rightarrow> bool" where
  "store_wf w \<longleftrightarrow>
     distinct (map fst (contextStore w)) \<and> distinct (map snd (contextStore w)) \<and>
     list_all (\<lambda>(k, r). r < next_ref w) (contextStore w)"

text \<open>A message list that starts with the system message and has no other system entry.\<close>

definition system_first :: "string chat_message list \<Rightarrow> bool" where
  "system_first ms =
     (case ms of
        [] \<Rightarrow> False
      | m # rest \<Rightarrow> m = system_message \<and> list_all (\<lambda>m'. role m' \<noteq> system) rest)"

definition store_inv :: "'c world \<Rightarrow> bool" where
  "store_inv w \<longleftrightarrow>
     list_all (\<lambda>(k, r). r < next_ref w \<and> system_first (messages (heap w r))) (contextStore w)"

section \<open>The handler of route.ts\<close>

text \<open>
  \<open>const { Body, From } = body\<close>: destructuring \<open>null\<close> throws a TypeError; any other
  parsed JSON value gives the two properties, \<open>undefined\<close> where it has none of that name.
  \<open>JSON.parse\<close> keeps the last of several members of the same name.
\<close>

fun get_property :: "js_value \<Rightarrow> string \<Rightarrow> js_value" where
  "get_property (JObject members) k =
     (case fromEntries members k of None \<Rightarrow> JUndefined | Some v \<Rightarrow> v)"
| "get_property _ k = JUndefined"

definition destructure_Body_From :: "js_value \<Rightarrow> string + js_value \<times> js_value" where
  "destructure_Body_From body =
     (if body = JNull \<or> body = JUndefined
      then Inl ''Cannot destructure property 'Body' of 'body' as it is null.''
      else Inr (get_property body ''Body'', get_property body ''From''))"

text \<open>JavaScript truthiness, as \<open>!Body\<close> reads it.\<close>

fun truthy :: "js_value \<Rightarrow> bool" where
  "truthy JUndefined = False"
| "truthy JNull = False"
| "truthy (JBool b) = b"
| "truthy (JNumber n) = (n \<noteq> 0)"
| "truthy (JString s) = (s \<noteq> [])"
| "truthy (JArray _) = True"
| "truthy (JObject _) = True"

text \<open>
  The \<open>try\<close> block. Whatever it throws is an \<open>Error\<close>: the SyntaxError or TypeError of
  \<open>request.json()\<close>, the TypeError of destructuring \<open>null\<close>, a rejection of one of the two
  clients. \<open>Inl\<close> carries the message of that \<open>Error\<close>.
\<close>

definition POST_route_try ::
  "js_value env \<Rightarrow> NextRequest \<Rightarrow> js_value world \<Rightarrow> (string + NextResponse) \<times> js_value world" where
  "POST_route_try e request w =
     (case json request of
        Inl msg \<Rightarrow> (Inl msg, w)
      | Inr body \<Rightarrow>
          (let w1 = console_log ''Incoming Twilio request:'' body w in
           case destructure_Body_From body of
             Inl msg \<Rightarrow> (Inl msg, w1)
           | Inr (Body', From') \<Rightarrow>
               if \<not> truthy Body' \<or> \<not> truthy From' then
                 (Inr \<lparr>status = 400,
                       json_body = Error_json ''Invalid request payload.'' None\<rparr>, w1)
               else
                 (case openai_create e
                         \<lparr>model = ''gpt-4'',
                          messages_param = [\<lparr>role = user, content = Body'\<rparr>],
                          max_tokens = 200,
                          temperature = None\<rparr> w1 of
                    (Inl msg, w2) \<Rightarrow> (Inl msg, w2)
                  | (Inr aiResponse, w2) \<Rightarrow>
                      (let replyText = or_default (first_content aiResponse) ''I'm here to help!''
                       in case twilio_create e
                                 \<lparr>from_msg = whatsapp_sender e, body_msg = replyText,
                                  to_msg = ''whatsapp:+923020012190''\<rparr> w2 of
                            (Inl msg, w3) \<Rightarrow> (Inl msg, w3)
                          | (Inr _, w3) \<Rightarrow>
                              (Inr \<lparr>status = 200,
                                    json_body =
                                      Success_json (Some ''Message processed and reply sent.'')\<rparr>,
                               w3)))))"

text \<open>
  The \<open>catch\<close> clause, for the \<open>Error\<close> with message \<open>msg\<close> that the \<open>try\<close> block threw:
  \<open>details: error.message\<close> is that message.
\<close>

definition POST_route_catch ::
  "string \<Rightarrow> js_value world \<Rightarrow> (thrown + NextResponse) \<times> js_value world" where
  "POST_route_catch msg w =
     (Inr \<lparr>status = 500,
           json_body = Error_json ''Failed to process request'' (Some (Message msg))\<rparr>,
      console_error ''Error processing request:'' (Error msg) w)"

definition POST_route ::
  "js_value env \<Rightarrow> NextRequest \<Rightarrow> js_value world \<Rightarrow> (thrown + NextResponse) \<times> js_value world" where
  "POST_route e request w =
     (case POST_route_try e request w of
        (Inr response, w') \<Rightarrow> (Inr response, w')
      | (Inl msg, w') \<Rightarrow> POST_route_catch msg w')"

section \<open>Concrete requests, environments and worlds\<close>

text \<open>The world when the module has just been loaded: an empty map, no call made yet.\<close>

definition initial_world :: "'c world" where
  "initial_world =
     \<lparr>contextStore = [], heap = (\<lambda>_. new_context [] 0), next_ref = 0,
      openai_calls = [], twilio_calls = [], console = []\<rparr>"

definition hello_form_request :: NextRequest where
  "hello_form_request =
     \<lparr>formData = Inr [(''Body'', FormString ''Hello''), (''From'', FormString ''whatsapp:+100'')],
      json = Inl ''Unexpected token''\<rparr>"

definition hello_json_request :: NextRequest where
  "hello_json_request =
     \<lparr>formData = Inl ''Failed to parse body as FormData.'',
      json = Inr (JObject [(''Body'', JString ''Hello''), (''From'', JString ''whatsapp:+100'')])\<rparr>"

definition empty_body_form_request :: NextRequest where
  "empty_body_form_request =
     \<lparr>formData = Inr [(''Body'', FormString []), (''From'', FormString ''whatsapp:+100'')],
      json = Inl ''Unexpected token''\<rparr>"

definition empty_body_json_request :: NextRequest where
  "empty_body_json_request =
     \<lparr>formData = Inl ''Failed to parse body as FormData.'',
      json = Inr (JObject [(''Body'', JString []), (''From'', JString ''whatsapp:+100'')])\<rparr>"

text \<open>A JSON body sent to the form handler: \<open>formData()\<close> rejects.\<close>

definition unreadable_form_request :: NextRequest where
  "unreadable_form_request =
     \<lparr>formData = Inl ''Failed to parse body as FormData.'',
      json = Inr (JObject [(''From'', JString ''whatsapp:+100'')])\<rparr>"

text \<open>The JSON body \<open>null\<close>.\<close>

definition null_json_request :: NextRequest where
  "null_json_request =
     \<lparr>formData = Inl ''Failed to parse body as FormData.'', json = Inr JNull\<rparr>"

text \<open>A message whose sender is the number written in the \<open>catch\<close> clause.\<close>

definition fallback_number_form_request :: NextRequest where
  "fallback_number_form_request =
     \<lparr>formData = Inr [(''Body'', FormString ''Hello''), (''From'', FormString ''whatsapp:+1234567890'')],
      json = Inl ''Unexpected token''\<rparr>"

definition other_form_request :: NextRequest where
  "other_form_request =
     \<lparr>formData = Inr [(''Body'', FormString ''Good morning''), (''From'', FormString ''whatsapp:+200'')],
      json = Inl ''Unexpected token''\<rparr>"

definition hi_there :: ChatCompletion where
  "hi_there = \<lparr>choices = [Choice (Some (ChatCompletionMessage (Some ''Hi there!'')))]\<rparr>"

text \<open>Both providers answer; the completion is always \<open>Hi there!\<close>.\<close>

definition env_up :: "'c env" where
  "env_up =
     \<lparr>TWILIO_PHONE_NUMBER = Some ''+14155238886'', new_Date = 1700000000000,
      completions_create = (\<lambda>_ _. Inr hi_there),
      messages_create = (\<lambda>_ _. Inr ())\<rparr>"

text \<open>The completion provider rejects every call.\<close>

definition env_openai_down :: "'c env" where
  "env_openai_down =
     \<lparr>TWILIO_PHONE_NUMBER = Some ''+14155238886'', new_Date = 1700000000000,
      completions_create = (\<lambda>_ _. Inl ''Connection error.''),
      messages_create = (\<lambda>_ _. Inr ())\<rparr>"

text \<open>The messaging provider rejects every call.\<close>

definition env_twilio_down :: "'c env" where
  "env_twilio_down =
     \<lparr>TWILIO_PHONE_NUMBER = Some ''+14155238886'', new_Date = 1700000000000,
      completions_create = (\<lambda>_ _. Inr hi_there),
      messages_create = (\<lambda>_ _. Inl ''Authenticate'')\<rparr>"

text \<open>The world after three successful cycles of the same sender.\<close>

definition after_three_cycles :: "string world" where
  "after_three_cycles =
     snd (POST env_up hello_form_request
       (snd (POST env_up hello_form_request
         (snd (POST env_up hello_form_request initial_world)))))"

section \<open>How the context-tracking handler unfolds\<close>

lemmas model_defs =
  POST_def POST_try_def POST_catch_def update_context_def get_or_create_def
  generateAIResponse_def completion_params_def slice_last_def reply_message_def
  apology_message_def new_object_def new_context_def messages_push_def
  contextStore_get_def contextStore_set_def stored_context_def
  WhatsAppMessageSchema_parse_def fromEntries_def validated_def
  openai_create_def twilio_create_def console_error_def console_log_def
  whatsapp_sender_def first_content_def or_default_def system_message_def

lemmas example_defs =
  initial_world_def hello_form_request_def hello_json_request_def
  empty_body_form_request_def empty_body_json_request_def other_form_request_def hi_there_def
  unreadable_form_request_def null_json_request_def fallback_number_form_request_def
  env_up_def env_openai_down_def env_twilio_down_def

lemma parse_Inr_iff:
  "WhatsAppMessageSchema_parse b f = Inr v \<longleftrightarrow>
     (\<exists>bs fs. b = Some (FormString bs) \<and> bs \<noteq> [] \<and> f = Some (FormString fs) \<and>
        prefix ''whatsapp:'' fs \<and> v = \<lparr>Body = bs, From = fs\<rparr>)"
proof (cases b)
  case None
  then show ?thesis by (simp add: WhatsAppMessageSchema_parse_def)
next
  case (Some bv)
  show ?thesis
  proof (cases bv)
    case FormFile
    with Some show ?thesis by (simp add: WhatsAppMessageSchema_parse_def)
  next
    case (FormString bs)
    show ?thesis
    proof (cases f)
      case None
      with Some FormString show ?thesis
        by (simp add: WhatsAppMessageSchema_parse_def split: list.splits)
    next
      case (Some fv)
      with \<open>b = Some bv\<close> FormString show ?thesis
        by (cases fv) (auto simp: WhatsAppMessageSchema_parse_def split: list.splits)
    qed
  qed
qed

lemma parse_Inl_ZodError:
  "WhatsAppMessageSchema_parse b f = Inl err \<Longrightarrow> instanceof_ZodError err"
  by (auto simp: WhatsAppMessageSchema_parse_def split: list.splits option.splits FormDataEntryValue.splits prod.splits)

lemma generateAIResponse_world:
  "snd (generateAIResponse e r w) = w'
   \<Longrightarrow> heap w' = heap w \<and> contextStore w' = contextStore w \<and> next_ref w' = next_ref w \<and>
       twilio_calls w' = twilio_calls w \<and>
       openai_calls w' = openai_calls w @ [completion_params (slice_last 6 (messages (heap w r)))]"
  by (auto simp: generateAIResponse_def openai_create_def console_error_def Let_def split: sum.splits prod.splits)


lemma get_or_create_Some:
  "contextStore_get w K = Some r \<Longrightarrow> get_or_create K now w = (r, w)"
  by (simp add: get_or_create_def)

lemma get_or_create_None:
  "contextStore_get w K = None \<Longrightarrow>
   get_or_create K now w =
     (next_ref w, w\<lparr>heap := (heap w)(next_ref w := new_context K now), next_ref := Suc (next_ref w)\<rparr>)"
  by (simp add: get_or_create_def new_object_def)

lemma get_or_create_keeps:
  "get_or_create K now w = (r, w1) \<Longrightarrow>
   contextStore w1 = contextStore w \<and> twilio_calls w1 = twilio_calls w \<and>
   openai_calls w1 = openai_calls w \<and> console w1 = console w"
  by (auto simp: get_or_create_def new_object_def split: option.splits)

lemma update_context_world:
  assumes g: "get_or_create (From v) (new_Date e) w = (r, w1)"
    and u: "update_context e v w = (reply, w')"
  shows "heap w' = (heap w1)(r := (heap w1 r)\<lparr>messages := messages (heap w1 r) @
            [\<lparr>role = user, content = Body v\<rparr>, \<lparr>role = assistant, content = reply\<rparr>]\<rparr>)"
    and "contextStore w' = AList.update (From v) r (contextStore w)"
    and "next_ref w' = next_ref w1"
    and "twilio_calls w' = twilio_calls w"
    and "openai_calls w' = openai_calls w @
           [completion_params (slice_last 6 (messages (heap w1 r) @ [\<lparr>role = user, content = Body v\<rparr>]))]"
  using g u get_or_create_keeps[OF g]
  by (auto simp: update_context_def Let_def messages_push_def contextStore_set_def
        generateAIResponse_def openai_create_def console_error_def
      split: prod.splits sum.splits)

lemma update_context_reply:
  assumes g: "get_or_create (From v) (new_Date e) w = (r, w1)"
  shows "fst (update_context e v w) =
    (case completions_create e (openai_calls w)
        (completion_params (slice_last 6 (messages (heap w1 r) @ [\<lparr>role = user, content = Body v\<rparr>]))) of
       Inl _ \<Rightarrow> ''Sorry, I am unable to generate a response right now.''
     | Inr c \<Rightarrow> or_default (first_content c) ''I could not generate a response.'')"
  using g get_or_create_keeps[OF g]
  by (auto simp: update_context_def Let_def messages_push_def contextStore_set_def
        generateAIResponse_def openai_create_def console_error_def
      split: prod.splits sum.splits)


lemma validated_Some_iff:
  "validated req = Some v \<longleftrightarrow>
     (\<exists>entries. formData req = Inr entries \<and>
        WhatsAppMessageSchema_parse (fromEntries entries ''Body'') (fromEntries entries ''From'') = Inr v)"
  by (auto simp: validated_def split: sum.splits)

lemma POST_try_validated:
  assumes "validated req = Some v" and "update_context e v w = (aiResponse, w5)"
  shows "POST_try e req w =
    (case messages_create e (twilio_calls w5) (reply_message e aiResponse (From v)) of
       Inl msg \<Rightarrow>
         (Inl (Error msg), w5\<lparr>twilio_calls := twilio_calls w5 @ [reply_message e aiResponse (From v)]\<rparr>)
     | Inr _ \<Rightarrow>
         (Inr \<lparr>status = 200, json_body = Success_json None\<rparr>,
          w5\<lparr>twilio_calls := twilio_calls w5 @ [reply_message e aiResponse (From v)]\<rparr>))"
  using assms
  by (auto simp: validated_Some_iff POST_try_def Let_def twilio_create_def split: sum.splits)

lemma POST_catch_Error:
  "POST_catch e (Error msg) w =
     (Inr \<lparr>status = 500, json_body = Error_json ''Internal server error'' None\<rparr>,
      (case messages_create e (twilio_calls w) (apology_message e) of
         Inr _ \<Rightarrow> (console_error ''WhatsApp Bot Error:'' (Error msg) w)
                    \<lparr>twilio_calls := twilio_calls w @ [apology_message e]\<rparr>
       | Inl msg2 \<Rightarrow>
           console_error ''Failed to send Twilio error message:'' (Error msg2)
             ((console_error ''WhatsApp Bot Error:'' (Error msg) w)
                \<lparr>twilio_calls := twilio_calls w @ [apology_message e]\<rparr>)))"
  by (simp add: POST_catch_def Let_def twilio_create_def console_error_def split: sum.splits)

lemma POST_catch_ZodError:
  "POST_catch e (ZodError issues) w =
     (Inr \<lparr>status = 400, json_body = Error_json ''Invalid request'' (Some (Issues issues))\<rparr>,
      console_error ''WhatsApp Bot Error:'' (ZodError issues) w)"
  by (simp add: POST_catch_def Let_def)

lemma POST_send_ok:
  assumes "validated req = Some v" and "update_context e v w = (aiResponse, w5)"
    and "messages_create e (twilio_calls w) (reply_message e aiResponse (From v)) = Inr u"
  shows "POST e req w =
    (Inr \<lparr>status = 200, json_body = Success_json None\<rparr>,
     w5\<lparr>twilio_calls := twilio_calls w @ [reply_message e aiResponse (From v)]\<rparr>)"
proof -
  obtain r w1 where g: "get_or_create (From v) (new_Date e) w = (r, w1)"
    by (cases "get_or_create (From v) (new_Date e) w")
  have t: "twilio_calls w5 = twilio_calls w"
    using update_context_world(4)[OF g assms(2)] .
  show ?thesis
    using assms(3) by (simp add: POST_def POST_try_validated[OF assms(1,2)] t)
qed

lemma POST_send_fails:
  assumes "validated req = Some v" and "update_context e v w = (aiResponse, w5)"
    and "messages_create e (twilio_calls w) (reply_message e aiResponse (From v)) = Inl msg"
  shows "POST e req w =
    POST_catch e (Error msg)
      (w5\<lparr>twilio_calls := twilio_calls w @ [reply_message e aiResponse (From v)]\<rparr>)"
proof -
  obtain r w1 where g: "get_or_create (From v) (new_Date e) w = (r, w1)"
    by (cases "get_or_create (From v) (new_Date e) w")
  have t: "twilio_calls w5 = twilio_calls w"
    using update_context_world(4)[OF g assms(2)] .
  show ?thesis
    using assms(3) by (simp add: POST_def POST_try_validated[OF assms(1,2)] t)
qed

lemma POST_invalid:
  assumes "formData req = Inr entries" and "validated req = None"
  shows "\<exists>issues. POST e req w =
     (Inr \<lparr>status = 400, json_body = Error_json ''Invalid request'' (Some (Issues issues))\<rparr>,
      console_error ''WhatsApp Bot Error:'' (ZodError issues) w)"
proof -
  from assms obtain err where
    p: "WhatsAppMessageSchema_parse (fromEntries entries ''Body'') (fromEntries entries ''From'') = Inl err"
    by (auto simp: validated_def split: sum.splits)
  from parse_Inl_ZodError[OF p] obtain issues where "err = ZodError issues"
    by (cases err) auto
  with p assms(1) show ?thesis
    by (auto simp: POST_def POST_try_def Let_def POST_catch_ZodError)
qed

lemma POST_unreadable:
  assumes "formData req = Inl msg"
  shows "POST e req w = POST_catch e (Error msg) w"
  using assms by (simp add: POST_def POST_try_def)

lemma chat_message_eta [simp]:
  "map (\<lambda>msg. \<lparr>role = role msg, content = content msg\<rparr>) (ms :: string chat_message list) = ms"
  by (induction ms) auto

lemma slice_last_props:
  "length (slice_last n xs) \<le> n" "suffix (slice_last n xs) xs"
  "n > 0 \<Longrightarrow> slice_last n (ys @ [y]) \<noteq> [] \<and> last (slice_last n (ys @ [y])) = y"
  by (auto simp: slice_last_def suffix_drop)

lemma stored_context_get_or_create:
  assumes "get_or_create K now w = (r, w1)"
  shows "messages (heap w1 r) =
     (case stored_context w K of Some c \<Rightarrow> messages c | None \<Rightarrow> [system_message])"
  using assms
  by (auto simp: get_or_create_def stored_context_def new_object_def new_context_def
      split: option.splits)

lemma POST_openai_calls:
  assumes "validated req = Some v" and "update_context e v w = (aiResponse, w5)"
  shows "openai_calls (snd (POST e req w)) = openai_calls w5"
proof (cases "messages_create e (twilio_calls w) (reply_message e aiResponse (From v))")
  case (Inl msg)
  show ?thesis
    by (simp add: POST_send_fails[OF assms Inl] POST_catch_Error console_error_def split: sum.splits)
next
  case (Inr u)
  show ?thesis by (simp add: POST_send_ok[OF assms Inr])
qed

lemma POST_catch_store:
  "snd (POST_catch e err w) = w' \<Longrightarrow>
     heap w' = heap w \<and> contextStore w' = contextStore w \<and> next_ref w' = next_ref w"
  by (auto simp: POST_catch_def Let_def twilio_create_def console_error_def
      split: if_splits sum.splits prod.splits)

lemma POST_store_validated:
  assumes "validated req = Some v" and "update_context e v w = (aiResponse, w5)"
  shows "heap (snd (POST e req w)) = heap w5"
    and "contextStore (snd (POST e req w)) = contextStore w5"
    and "next_ref (snd (POST e req w)) = next_ref w5"
proof -
  have "heap (snd (POST e req w)) = heap w5 \<and> contextStore (snd (POST e req w)) = contextStore w5 \<and>
        next_ref (snd (POST e req w)) = next_ref w5"
  proof (cases "messages_create e (twilio_calls w) (reply_message e aiResponse (From v))")
    case (Inl msg)
    show ?thesis
      using POST_catch_store[OF refl, of e "Error msg"]
      by (simp add: POST_send_fails[OF assms Inl])
  next
    case (Inr u)
    show ?thesis by (simp add: POST_send_ok[OF assms Inr])
  qed
  then show "heap (snd (POST e req w)) = heap w5"
    and "contextStore (snd (POST e req w)) = contextStore w5"
    and "next_ref (snd (POST e req w)) = next_ref w5" by simp_all
qed

lemma POST_store_not_validated:
  assumes "validated req = None"
  shows "heap (snd (POST e req w)) = heap w"
    and "contextStore (snd (POST e req w)) = contextStore w"
    and "next_ref (snd (POST e req w)) = next_ref w"
proof -
  have "heap (snd (POST e req w)) = heap w \<and> contextStore (snd (POST e req w)) = contextStore w \<and>
        next_ref (snd (POST e req w)) = next_ref w"
  proof (cases "formData req")
    case (Inl msg)
    show ?thesis
      using POST_catch_store[OF refl, of e "Error msg" w] by (simp add: POST_unreadable[OF Inl])
  next
    case (Inr entries)
    from POST_invalid[OF Inr assms, of e w] show ?thesis
      by (auto simp: console_error_def)
  qed
  then show "heap (snd (POST e req w)) = heap w"
    and "contextStore (snd (POST e req w)) = contextStore w"
    and "next_ref (snd (POST e req w)) = next_ref w" by simp_all
qed

text \<open>The context stored under the sender's key once lines 50 to 79 have run.\<close>

lemma update_context_stored:
  assumes "update_context e v w = (aiResponse, w5)"
  shows "stored_context w5 (From v) =
     Some ((case stored_context w (From v) of
              Some c \<Rightarrow> c
            | None \<Rightarrow> new_context (From v) (new_Date e))
           \<lparr>messages :=
              (case stored_context w (From v) of Some c \<Rightarrow> messages c | None \<Rightarrow> [system_message]) @
              [\<lparr>role = user, content = Body v\<rparr>, \<lparr>role = assistant, content = aiResponse\<rparr>]\<rparr>)"
proof -
  obtain r w1 where g: "get_or_create (From v) (new_Date e) w = (r, w1)"
    by (cases "get_or_create (From v) (new_Date e) w")
  have c: "heap w1 r = (case stored_context w (From v) of
              Some c \<Rightarrow> c | None \<Rightarrow> new_context (From v) (new_Date e))"
    using g by (auto simp: get_or_create_def stored_context_def new_object_def split: option.splits)
  show ?thesis
    using update_context_world(1,2)[OF g assms] c stored_context_get_or_create[OF g]
    by (simp add: stored_context_def contextStore_get_def AList.update_conv'
        split: option.splits)
qed

lemma stored_context_POST:
  assumes "validated req = Some v" and "update_context e v w = (aiResponse, w5)"
  shows "stored_context (snd (POST e req w)) k = stored_context w5 k"
  using POST_store_validated(1,2)[OF assms]
  by (simp add: stored_context_def contextStore_get_def)

lemma role_system_message: "role system_message = system"
  by (simp add: system_message_def)


lemma update_fresh: "map_of al k = None \<Longrightarrow> AList.update k v al = al @ [(k, v)]"
  by (induction al) (auto split: if_splits)

lemma system_first_append:
  "system_first ms \<Longrightarrow> list_all (\<lambda>m'. role m' \<noteq> system) xs \<Longrightarrow> system_first (ms @ xs)"
  by (cases ms) (auto simp: system_first_def)

lemma system_first_new: "system_first [system_message]"
  by (simp add: system_first_def)

text \<open>The map, the heap and the allocation pointer after lines 50 to 79.\<close>

lemma update_context_existing:
  assumes "contextStore_get w (From v) = Some r" and "update_context e v w = (aiResponse, w5)"
  shows "contextStore w5 = contextStore w" and "next_ref w5 = next_ref w"
    and "heap w5 = (heap w)(r := (heap w r)\<lparr>messages := messages (heap w r) @
            [\<lparr>role = user, content = Body v\<rparr>, \<lparr>role = assistant, content = aiResponse\<rparr>]\<rparr>)"
  using update_context_world(1,2,3)[OF get_or_create_Some[OF assms(1)] assms(2)] assms(1)
  by (simp_all add: contextStore_get_def AList.update_triv)

lemma update_context_fresh:
  assumes "contextStore_get w (From v) = None" and "update_context e v w = (aiResponse, w5)"
  shows "contextStore w5 = contextStore w @ [(From v, next_ref w)]"
    and "next_ref w5 = Suc (next_ref w)"
    and "heap w5 = (heap w)(next_ref w :=
            \<lparr>id_ctx = From v,
             messages = [system_message, \<lparr>role = user, content = Body v\<rparr>,
                         \<lparr>role = assistant, content = aiResponse\<rparr>],
             createdAt = new_Date e\<rparr>)"
  using update_context_world(1,2,3)[OF get_or_create_None[OF assms(1)] assms(2)] assms(1)
  by (simp_all add: contextStore_get_def update_fresh new_context_def)

lemma update_context_store_inv:
  assumes "store_inv w" and "update_context e v w = (aiResponse, w5)"
  shows "store_inv w5"
proof (cases "contextStore_get w (From v)")
  case None
  have "\<And>k r. (k, r) \<in> set (contextStore w) \<Longrightarrow> r \<noteq> next_ref w"
    using assms(1) by (auto simp: store_inv_def list_all_iff)
  then show ?thesis
    using assms(1) update_context_fresh[OF None assms(2)]
    by (auto simp: store_inv_def list_all_iff system_first_def)
next
  case (Some r)
  have "system_first (messages (heap w r'))
      \<Longrightarrow> system_first (messages (heap w r') @
            [\<lparr>role = user, content = Body v\<rparr>, \<lparr>role = assistant, content = aiResponse\<rparr>])" for r'
    by (rule system_first_append) simp_all
  then show ?thesis
    using assms(1) update_context_existing[OF Some assms(2)]
    by (auto simp: store_inv_def list_all_iff)
qed

lemma update_context_store_wf:
  assumes "store_wf w" and "update_context e v w = (aiResponse, w5)"
  shows "store_wf w5"
proof (cases "contextStore_get w (From v)")
  case None
  have "From v \<notin> fst ` set (contextStore w)"
    using None by (simp add: contextStore_get_def map_of_eq_None_iff)
  moreover have "next_ref w \<notin> snd ` set (contextStore w)"
    using assms(1) by (auto simp: store_wf_def list_all_iff)
  ultimately show ?thesis
    using assms(1) update_context_fresh[OF None assms(2)]
    by (auto simp: store_wf_def list_all_iff)
next
  case (Some r)
  then show ?thesis
    using assms(1) update_context_existing[OF Some assms(2)]
    by (simp add: store_wf_def)
qed

lemma store_wf_inj:
  assumes "store_wf w" and "contextStore_get w k = Some r" and "contextStore_get w k' = Some r"
  shows "k = k'"
proof -
  have "(k, r) \<in> set (contextStore w)" "(k', r) \<in> set (contextStore w)"
    using assms(2,3) by (auto simp: contextStore_get_def dest: map_of_SomeD)
  moreover have "inj_on snd (set (contextStore w))"
    using assms(1) by (simp add: store_wf_def distinct_map)
  ultimately have "(k, r) = (k', r)" by (intro inj_onD[where f = snd]) simp_all
  then show ?thesis by simp
qed

lemma store_wf_allocated:
  assumes "store_wf w" and "contextStore_get w k = Some r"
  shows "r < next_ref w"
  using assms by (auto simp: store_wf_def contextStore_get_def list_all_iff dest: map_of_SomeD)

lemma store_inv_allocated:
  assumes "store_inv w" and "contextStore_get w k = Some r"
  shows "r < next_ref w"
  using assms by (auto simp: store_inv_def contextStore_get_def list_all_iff dest: map_of_SomeD)

text \<open>Other keys keep their contexts through lines 50 to 79.\<close>

lemma update_context_frame:
  assumes "store_wf w" and "update_context e v w = (aiResponse, w5)" and "k \<noteq> From v"
  shows "stored_context w5 k = stored_context w k"
proof (cases "contextStore_get w (From v)")
  case None
  have "contextStore_get w5 k = contextStore_get w k"
    using update_context_fresh(1)[OF None assms(2)] assms(3)
    by (auto simp: contextStore_get_def map_add_def split: option.splits)
  then show ?thesis
    using update_context_fresh(3)[OF None assms(2)] store_wf_allocated[OF assms(1)]
    by (cases "contextStore_get w k") (auto simp: stored_context_def)
next
  case (Some r)
  show ?thesis
    using update_context_existing(1,3)[OF Some assms(2)] store_wf_inj[OF assms(1) _ Some] assms(3)
    by (cases "contextStore_get w k") (auto simp: stored_context_def contextStore_get_def)
qed

text \<open>Every context that was stored is still stored, with the same fields and a longer list.\<close>

lemma update_context_grows:
  assumes "\<forall>k r. contextStore_get w k = Some r \<longrightarrow> r < next_ref w"
    and "update_context e v w = (aiResponse, w5)"
    and "stored_context w k = Some c"
  shows "\<exists>c'. stored_context w5 k = Some c' \<and> id_ctx c' = id_ctx c \<and>
     createdAt c' = createdAt c \<and> prefix (messages c) (messages c') \<and>
     list_all (\<lambda>m'. role m' \<noteq> system) (drop (length (messages c)) (messages c'))"
proof -
  from assms(3) obtain r' where r': "contextStore_get w k = Some r'" and c: "c = heap w r'"
    by (auto simp: stored_context_def)
  show ?thesis
  proof (cases "contextStore_get w (From v)")
    case None
    have "contextStore_get w5 k = Some r'"
      using update_context_fresh(1)[OF None assms(2)] r'
      by (auto simp: contextStore_get_def)
    then show ?thesis
      using update_context_fresh(3)[OF None assms(2)] assms(1) r' c
      by (auto simp: stored_context_def)
  next
    case (Some r)
    show ?thesis
      using update_context_existing(1,3)[OF Some assms(2)] r' c
      by (auto simp: stored_context_def contextStore_get_def)
  qed
qed

section \<open>Invariants through a request\<close>

lemma store_inv_fields:
  "heap w' = heap w \<Longrightarrow> contextStore w' = contextStore w \<Longrightarrow> next_ref w' = next_ref w
   \<Longrightarrow> store_inv w' = store_inv w"
  by (simp add: store_inv_def)

lemma store_wf_fields:
  "contextStore w' = contextStore w \<Longrightarrow> next_ref w' = next_ref w \<Longrightarrow> store_wf w' = store_wf w"
  by (simp add: store_wf_def)

lemma stored_context_fields:
  "heap w' = heap w \<Longrightarrow> contextStore w' = contextStore w
   \<Longrightarrow> stored_context w' k = stored_context w k"
  by (simp add: stored_context_def contextStore_get_def)

lemma POST_store_inv:
  assumes "store_inv w"
  shows "store_inv (snd (POST e req w))"
proof (cases "validated req")
  case None
  show ?thesis
    using assms store_inv_fields[OF POST_store_not_validated[OF None, of e w]] by simp
next
  case (Some v)
  obtain aiResponse w5 where u: "update_context e v w = (aiResponse, w5)"
    by (cases "update_context e v w")
  show ?thesis
    using update_context_store_inv[OF assms u] store_inv_fields[OF POST_store_validated[OF Some u]]
    by simp
qed

lemma POST_store_wf:
  assumes "store_wf w"
  shows "store_wf (snd (POST e req w))"
proof (cases "validated req")
  case None
  show ?thesis
    using assms store_wf_fields[OF POST_store_not_validated(2,3)[OF None, of e w]] by simp
next
  case (Some v)
  obtain aiResponse w5 where u: "update_context e v w = (aiResponse, w5)"
    by (cases "update_context e v w")
  show ?thesis
    using update_context_store_wf[OF assms u] store_wf_fields[OF POST_store_validated(2,3)[OF Some u]]
    by simp
qed

lemma POST_grows:
  assumes "\<forall>k r. contextStore_get w k = Some r \<longrightarrow> r < next_ref w"
    and "stored_context w k = Some c"
  shows "\<exists>c'. stored_context (snd (POST e req w)) k = Some c' \<and> id_ctx c' = id_ctx c \<and>
     createdAt c' = createdAt c \<and> prefix (messages c) (messages c') \<and>
     list_all (\<lambda>m'. role m' \<noteq> system) (drop (length (messages c)) (messages c'))"
proof (cases "validated req")
  case None
  show ?thesis
    using assms(2) stored_context_fields[OF POST_store_not_validated(1,2)[OF None, of e w], of k]
    by simp
next
  case (Some v)
  obtain aiResponse w5 where u: "update_context e v w = (aiResponse, w5)"
    by (cases "update_context e v w")
  show ?thesis
    using update_context_grows[OF assms(1) u assms(2)] stored_context_POST[OF Some u, of k]
    by simp
qed

lemma store_inv_stored:
  assumes "store_inv w" and "stored_context w k = Some c"
  shows "system_first (messages c)"
  using assms
  by (auto simp: store_inv_def stored_context_def contextStore_get_def list_all_iff
      dest: map_of_SomeD)

lemma system_first_once:
  assumes "system_first ms"
  shows "ms \<noteq> [] \<and> hd ms = system_message \<and> filter (\<lambda>m'. role m' = system) ms = [system_message]"
proof (cases ms)
  case Nil
  with assms show ?thesis by (simp add: system_first_def)
next
  case (Cons m rest)
  with assms have "filter (\<lambda>m'. role m' = system) rest = []"
    by (auto simp: system_first_def list_all_iff filter_empty_conv)
  with assms Cons show ?thesis
    by (simp add: system_first_def role_system_message)
qed

lemma initial_world_store_inv: "store_inv initial_world"
  by (simp add: store_inv_def initial_world_def)

lemma initial_world_store_wf: "store_wf initial_world"
  by (simp add: store_wf_def initial_world_def)

lemma after_three_cycles_store:
  "contextStore after_three_cycles = [(''whatsapp:+100'', 0)] \<and> next_ref after_three_cycles = 1"
  by (simp add: after_three_cycles_def model_defs example_defs Let_def)

lemma after_three_cycles_context:
  "stored_context after_three_cycles ''whatsapp:+100'' =
     Some \<lparr>id_ctx = ''whatsapp:+100'',
           messages =
             [system_message,
              \<lparr>role = user, content = ''Hello''\<rparr>, \<lparr>role = assistant, content = ''Hi there!''\<rparr>,
              \<lparr>role = user, content = ''Hello''\<rparr>, \<lparr>role = assistant, content = ''Hi there!''\<rparr>,
              \<lparr>role = user, content = ''Hello''\<rparr>, \<lparr>role = assistant, content = ''Hi there!''\<rparr>],
           createdAt = 1700000000000\<rparr>"
  by (simp add: after_three_cycles_def model_defs example_defs Let_def)

section \<open>Validation and the handler of route.ts\<close>

lemmas route_defs =
  POST_route_def POST_route_try_def POST_route_catch_def destructure_Body_From_def

lemma parse_Inl_issues:
  "WhatsAppMessageSchema_parse b f = Inl err \<Longrightarrow>
     err = ZodError (check_Body b @ check_From f) \<and> check_Body b @ check_From f \<noteq> []"
  by (auto simp: WhatsAppMessageSchema_parse_def
      split: list.splits option.splits FormDataEntryValue.splits prod.splits if_splits)

lemma validated_None_cases:
  assumes "formData req = Inr entries"
    and "fromEntries entries ''Body'' = None \<or>
         fromEntries entries ''Body'' = Some (FormString []) \<or>
         (\<forall>f. fromEntries entries ''From'' = Some (FormString f) \<longrightarrow> \<not> prefix ''whatsapp:'' f)"
  shows "validated req = None"
proof (cases "validated req")
  case None
  then show ?thesis .
next
  case (Some v)
  then have "WhatsAppMessageSchema_parse (fromEntries entries ''Body'') (fromEntries entries ''From'') = Inr v"
    using assms(1) by (auto simp: validated_Some_iff)
  with assms(2) show ?thesis
    by (auto simp: parse_Inr_iff)
qed

lemma POST_route_invalid:
  assumes "json request = Inr body" and "body \<noteq> JNull" and "body \<noteq> JUndefined"
    and "\<not> truthy (get_property body ''Body'') \<or> \<not> truthy (get_property body ''From'')"
  shows "POST_route e request w =
     (Inr \<lparr>status = 400, json_body = Error_json ''Invalid request payload.'' None\<rparr>,
      console_log ''Incoming Twilio request:'' body w)"
  using assms by (auto simp: route_defs Let_def)

section \<open>The reply and its destination\<close>

text \<open>
  On the context-tracking handler the reply goes to the sender: for the payload
  \<open>{Body: "Hello", From: "whatsapp:+100"}\<close>, a completion \<open>Hi there!\<close> and a send that
  resolves, the handler makes one messaging call, to \<open>whatsapp:+100\<close> with body
  \<open>Hi there!\<close>, and answers 200 with \<open>{success: true}\<close>.
\<close>

lemma POST_hello_replies_to_sender:
  assumes "validated req = Some \<lparr>Body = ''Hello'', From = ''whatsapp:+100''\<rparr>"
    and "\<forall>p. \<exists>c. completions_create e (openai_calls w) p = Inr c \<and>
           first_content c = Some ''Hi there!''"
    and "messages_create e (twilio_calls w) (reply_message e ''Hi there!'' ''whatsapp:+100'') = Inr ()"
  shows "\<exists>w'. POST e req w = (Inr \<lparr>status = 200, json_body = Success_json None\<rparr>, w') \<and>
     twilio_calls w' =
       twilio_calls w @
       [\<lparr>from_msg = whatsapp_sender e, body_msg = ''Hi there!'', to_msg = ''whatsapp:+100''\<rparr>]"
proof -
  let ?v = "\<lparr>Body = ''Hello'', From = ''whatsapp:+100''\<rparr>"
  obtain r w1 where g: "get_or_create (From ?v) (new_Date e) w = (r, w1)"
    by (cases "get_or_create (From ?v) (new_Date e) w")
  obtain aiResponse w5 where u: "update_context e ?v w = (aiResponse, w5)"
    by (cases "update_context e ?v w")
  have "aiResponse = ''Hi there!''"
  proof -
    obtain c where "completions_create e (openai_calls w)
        (completion_params (slice_last 6 (messages (heap w1 r) @ [\<lparr>role = user, content = Body ?v\<rparr>]))) = Inr c"
      and "first_content c = Some ''Hi there!''"
      using assms(2) by blast
    then show ?thesis
      using update_context_reply[OF g] u by (simp add: or_default_def)
  qed
  with u assms(3) have s: "messages_create e (twilio_calls w) (reply_message e aiResponse (From ?v)) = Inr ()"
    by simp
  show ?thesis
    using POST_send_ok[OF assms(1) u s] \<open>aiResponse = ''Hi there!''\<close>
      update_context_world(4)[OF g u]
    by (simp add: reply_message_def)
qed

text \<open>
  C1. The handler of route.ts does not do so. At the payload
  \<open>{Body: "Hello", From: "whatsapp:+100"}\<close>, with the completion \<open>Hi there!\<close> and a send that
  resolves, it answers 200 with \<open>success: true\<close> and makes one messaging call with body
  \<open>Hi there!\<close>, but the destination is the number written in line 42,
  \<open>whatsapp:+923020012190\<close>, not the sender.
\<close>

theorem POST_route_hello_hardcoded_destination:
  "fst (POST_route env_up hello_json_request initial_world) =
     Inr \<lparr>status = 200, json_body = Success_json (Some ''Message processed and reply sent.'')\<rparr> \<and>
   twilio_calls (snd (POST_route env_up hello_json_request initial_world)) =
     [\<lparr>from_msg = ''whatsapp:+14155238886'', body_msg = ''Hi there!'',
       to_msg = ''whatsapp:+923020012190''\<rparr>] \<and>
   to_msg (hd (twilio_calls (snd (POST_route env_up hello_json_request initial_world)))) \<noteq>
     ''whatsapp:+100''"
  by (simp add: route_defs model_defs example_defs Let_def)

section \<open>Failure of a provider\<close>

text \<open>
  C2. For every request that passes validation, if the primary send of the messaging
  provider throws, the handler returns (it does not throw) a response with status 500,
  and the messaging calls it has made are the primary send and exactly one apology send,
  whatever the apology send does: when the apology send throws too, that failure is only
  logged, as the last line of the console.
\<close>

theorem POST_primary_send_throws:
  assumes "validated req = Some v"
    and "update_context e v w = (aiResponse, w5)"
    and "messages_create e (twilio_calls w) (reply_message e aiResponse (From v)) = Inl msg"
  shows "\<exists>w'. POST e req w =
            (Inr \<lparr>status = 500, json_body = Error_json ''Internal server error'' None\<rparr>, w') \<and>
          twilio_calls w' =
            twilio_calls w @ [reply_message e aiResponse (From v), apology_message e] \<and>
          (case messages_create e (twilio_calls w @ [reply_message e aiResponse (From v)])
                  (apology_message e) of
             Inl msg2 \<Rightarrow>
               last (console w') =
                 Console_error ''Failed to send Twilio error message:'' (Error msg2)
           | Inr _ \<Rightarrow> last (console w') = Console_error ''WhatsApp Bot Error:'' (Error msg))"
  by (simp add: POST_send_fails[OF assms] POST_catch_Error console_error_def split: sum.splits)

theorem POST_primary_send_throws_witness:
  "\<exists>w'. POST env_twilio_down hello_form_request initial_world =
            (Inr \<lparr>status = 500, json_body = Error_json ''Internal server error'' None\<rparr>, w') \<and>
        twilio_calls w' =
          [\<lparr>from_msg = ''whatsapp:+14155238886'', body_msg = ''Hi there!'',
            to_msg = ''whatsapp:+100''\<rparr>,
           \<lparr>from_msg = ''whatsapp:+14155238886'',
            body_msg = ''Sorry, I encountered an error processing your request.'',
            to_msg = ''whatsapp:+1234567890''\<rparr>] \<and>
        last (console w') =
          Console_error ''Failed to send Twilio error message:'' (Error ''Authenticate'')"
proof -
  have v: "validated hello_form_request = Some \<lparr>Body = ''Hello'', From = ''whatsapp:+100''\<rparr>"
    by (simp add: model_defs example_defs)
  obtain w5 where u: "update_context env_twilio_down \<lparr>Body = ''Hello'', From = ''whatsapp:+100''\<rparr>
      (initial_world :: string world) = (''Hi there!'', w5)"
    by (simp add: model_defs example_defs Let_def)
  have m: "messages_create env_twilio_down (twilio_calls (initial_world :: string world))
      (reply_message env_twilio_down ''Hi there!'' (From \<lparr>Body = ''Hello'', From = ''whatsapp:+100''\<rparr>))
      = Inl ''Authenticate''"
    by (simp add: example_defs)
  show ?thesis
    using POST_primary_send_throws[OF v u m]
    by (simp add: example_defs reply_message_def apology_message_def whatsapp_sender_def)
qed

text \<open>
  On the context-tracking handler a completion call that throws is absorbed by
  \<open>generateAIResponse\<close>: for every request that passes validation, if the completion call
  throws and the send of the reply resolves, the handler answers 200 and makes exactly one
  messaging call, to the sender, whose body is the fixed fallback text.
\<close>

lemma POST_completion_failure_fallback:
  assumes "validated req = Some v"
    and "completions_create e (openai_calls w)
      (completion_params (slice_last 6
         ((case stored_context w (From v) of Some c \<Rightarrow> messages c | None \<Rightarrow> [system_message]) @
          [\<lparr>role = user, content = Body v\<rparr>]))) = Inl msg"
    and "messages_create e (twilio_calls w)
      (reply_message e ''Sorry, I am unable to generate a response right now.'' (From v)) = Inr ()"
  shows "\<exists>w'. POST e req w = (Inr \<lparr>status = 200, json_body = Success_json None\<rparr>, w') \<and>
       twilio_calls w' =
         twilio_calls w @
         [\<lparr>from_msg = whatsapp_sender e,
           body_msg = ''Sorry, I am unable to generate a response right now.'',
           to_msg = From v\<rparr>]"
proof -
  let ?fallback = "''Sorry, I am unable to generate a response right now.''"
  obtain r w1 where g: "get_or_create (From v) (new_Date e) w = (r, w1)"
    by (cases "get_or_create (From v) (new_Date e) w")
  obtain aiResponse w5 where u: "update_context e v w = (aiResponse, w5)"
    by (cases "update_context e v w")
  have r: "aiResponse = ?fallback"
    using update_context_reply[OF g] u assms(2) stored_context_get_or_create[OF g] by simp
  with assms(3)
  have s: "messages_create e (twilio_calls w) (reply_message e aiResponse (From v)) = Inr ()"
    by simp
  show ?thesis
    using POST_send_ok[OF assms(1) u s] r by (simp add: reply_message_def)
qed

lemma POST_completion_failure_fallback_example:
  "\<exists>w'. POST env_openai_down hello_form_request initial_world =
        (Inr \<lparr>status = 200, json_body = Success_json None\<rparr>, w') \<and>
      twilio_calls w' =
        [\<lparr>from_msg = ''whatsapp:+14155238886'',
          body_msg = ''Sorry, I am unable to generate a response right now.'',
          to_msg = ''whatsapp:+100''\<rparr>]"
  by (simp add: model_defs example_defs Let_def)

text \<open>
  C3. The handler of route.ts has no such recovery. At the payload
  \<open>{Body: "Hello", From: "whatsapp:+100"}\<close>, which passes its check, with a completion call
  that throws, the call is made, the handler's only \<open>catch\<close> clause takes the error, the
  response is 500 and no messaging call is made: nothing is delivered, where a 200 and one
  messaging call with the fallback text are asked for.
\<close>

theorem POST_route_completion_failure:
  "fst (POST_route env_openai_down hello_json_request initial_world) =
     Inr \<lparr>status = 500,
          json_body = Error_json ''Failed to process request'' (Some (Message ''Connection error.''))\<rparr> \<and>
   openai_calls (snd (POST_route env_openai_down hello_json_request initial_world)) =
     [\<lparr>model = ''gpt-4'', messages_param = [\<lparr>role = user, content = JString ''Hello''\<rparr>],
       max_tokens = 200, temperature = None\<rparr>] \<and>
   twilio_calls (snd (POST_route env_openai_down hello_json_request initial_world)) = []"
  by (simp add: route_defs model_defs example_defs Let_def)

section \<open>Validation failures\<close>

text \<open>
  C4, as the claim states it, fails for a body the handler cannot read. A body that is
  not form data has no \<open>Body\<close> field, yet \<open>formData()\<close> rejects before the schema is asked: the
  context-tracking handler answers 500 and makes one messaging call, the apology. The JSON
  body \<open>null\<close> has no \<open>Body\<close> either, yet destructuring it throws before the check of
  route.ts: the handler answers 500.
\<close>

theorem validation_failure_unreadable_counterexample:
  "formData unreadable_form_request = Inl ''Failed to parse body as FormData.'' \<and>
   validated unreadable_form_request = None \<and>
   fst (POST env_up unreadable_form_request initial_world) =
     Inr \<lparr>status = 500, json_body = Error_json ''Internal server error'' None\<rparr> \<and>
   twilio_calls (snd (POST env_up unreadable_form_request initial_world)) =
     [\<lparr>from_msg = ''whatsapp:+14155238886'',
       body_msg = ''Sorry, I encountered an error processing your request.'',
       to_msg = ''whatsapp:+1234567890''\<rparr>] \<and>
   json null_json_request = Inr JNull \<and>
   get_property JNull ''Body'' = JUndefined \<and>
   fst (POST_route env_up null_json_request initial_world) =
     Inr \<lparr>status = 500,
          json_body = Error_json ''Failed to process request''
            (Some (Message ''Cannot destructure property 'Body' of 'body' as it is null.''))\<rparr> \<and>
   twilio_calls (snd (POST_route env_up null_json_request initial_world)) = []"
  by (simp add: route_defs model_defs example_defs Let_def)

text \<open>
  C4, amended. A payload that the handler can read and that fails validation is answered
  with 400 and no call to either provider, the apology send included. On the
  context-tracking handler these are the form bodies that \<open>WhatsAppMessageSchema\<close> refuses
  (\<open>validated req = None\<close>: \<open>Body\<close> missing, not a string or empty, \<open>From\<close> missing, not a string or
  without the \<open>whatsapp:\<close> prefix, see \<open>validated_None_cases\<close>); the response lists the issues.
  On route.ts these are the parsed bodies other than \<open>null\<close> whose \<open>Body\<close> or \<open>From\<close> is falsy, a
  missing or empty \<open>Body\<close> among them.
\<close>

theorem validation_failure_no_calls:
  "(formData req = Inr entries \<and> validated req = None \<longrightarrow>
      (\<exists>w'. POST e req w =
          (Inr \<lparr>status = 400,
                json_body = Error_json ''Invalid request''
                  (Some (Issues (check_Body (fromEntries entries ''Body'') @
                                 check_From (fromEntries entries ''From''))))\<rparr>, w') \<and>
        check_Body (fromEntries entries ''Body'') @ check_From (fromEntries entries ''From'') \<noteq> [] \<and>
        openai_calls w' = openai_calls w \<and> twilio_calls w' = twilio_calls w \<and>
        contextStore w' = contextStore w)) \<and>
   (json request = Inr body \<and> body \<noteq> JNull \<and> body \<noteq> JUndefined \<and>
    (\<not> truthy (get_property body ''Body'') \<or> \<not> truthy (get_property body ''From'')) \<longrightarrow>
      (\<exists>w'. POST_route e' request wr =
          (Inr \<lparr>status = 400, json_body = Error_json ''Invalid request payload.'' None\<rparr>, w') \<and>
        openai_calls w' = openai_calls wr \<and> twilio_calls w' = twilio_calls wr))"
proof (intro conjI impI)
  assume a: "formData req = Inr entries \<and> validated req = None"
  then obtain err where
    p: "WhatsAppMessageSchema_parse (fromEntries entries ''Body'') (fromEntries entries ''From'') = Inl err"
    by (auto simp: validated_def split: sum.splits)
  from parse_Inl_issues[OF p] a p
  show "\<exists>w'. POST e req w =
          (Inr \<lparr>status = 400,
                json_body = Error_json ''Invalid request''
                  (Some (Issues (check_Body (fromEntries entries ''Body'') @
                                 check_From (fromEntries entries ''From''))))\<rparr>, w') \<and>
        check_Body (fromEntries entries ''Body'') @ check_From (fromEntries entries ''From'') \<noteq> [] \<and>
        openai_calls w' = openai_calls w \<and> twilio_calls w' = twilio_calls w \<and>
        contextStore w' = contextStore w"
    by (auto simp: POST_def POST_try_def Let_def POST_catch_ZodError console_error_def)
next
  assume "json request = Inr body \<and> body \<noteq> JNull \<and> body \<noteq> JUndefined \<and>
    (\<not> truthy (get_property body ''Body'') \<or> \<not> truthy (get_property body ''From''))"
  then show "\<exists>w'. POST_route e' request wr =
          (Inr \<lparr>status = 400, json_body = Error_json ''Invalid request payload.'' None\<rparr>, w') \<and>
        openai_calls w' = openai_calls wr \<and> twilio_calls w' = twilio_calls wr"
    by (simp add: POST_route_invalid console_log_def)
qed

theorem validation_failure_no_calls_witness:
  "(\<exists>w'. POST env_up empty_body_form_request initial_world =
       (Inr \<lparr>status = 400,
             json_body = Error_json ''Invalid request''
               (Some (Issues [ZodIssue too_small [''Body''] (Some ''Message cannot be empty'')]))\<rparr>, w') \<and>
     openai_calls w' = [] \<and> twilio_calls w' = []) \<and>
   (\<exists>w'. POST_route env_up empty_body_json_request initial_world =
       (Inr \<lparr>status = 400, json_body = Error_json ''Invalid request payload.'' None\<rparr>, w') \<and>
     openai_calls w' = [] \<and> twilio_calls w' = [])"
proof -
  have f: "formData empty_body_form_request =
      Inr [(''Body'', FormString []), (''From'', FormString ''whatsapp:+100'')] \<and>
      validated empty_body_form_request = None"
    by (simp add: model_defs example_defs)
  have j: "json empty_body_json_request =
        Inr (JObject [(''Body'', JString []), (''From'', JString ''whatsapp:+100'')]) \<and>
      JObject [(''Body'', JString []), (''From'', JString ''whatsapp:+100'')] \<noteq> JNull \<and>
      JObject [(''Body'', JString []), (''From'', JString ''whatsapp:+100'')] \<noteq> JUndefined \<and>
      (\<not> truthy (get_property (JObject [(''Body'', JString []), (''From'', JString ''whatsapp:+100'')]) ''Body'') \<or>
       \<not> truthy (get_property (JObject [(''Body'', JString []), (''From'', JString ''whatsapp:+100'')]) ''From''))"
    by (simp add: example_defs fromEntries_def)
  note inst = validation_failure_no_calls[of empty_body_form_request
      "[(''Body'', FormString []), (''From'', FormString ''whatsapp:+100'')]" env_up initial_world
      empty_body_json_request
      "JObject [(''Body'', JString []), (''From'', JString ''whatsapp:+100'')]" env_up initial_world]
  from inst[THEN conjunct1, THEN mp, OF f] inst[THEN conjunct2, THEN mp, OF j]
  show ?thesis
    by (auto simp: fromEntries_def initial_world_def)
qed

section \<open>The completion request\<close>

text \<open>
  C5. For every request that passes validation, in any world (so after any number of
  earlier cycles), the handler makes one completion call. Let \<open>ms\<close> be the context's list
  once the user message of this request has been pushed: what was stored under the key, or
  the system message alone for a new key, followed by that user message. The message list
  of the call is \<open>ms\<close> without its first \<open>length ms - 6\<close> elements: the last six messages of
  \<open>ms\<close> in their order, all of \<open>ms\<close> when it has at most six, so \<open>min 6 (length ms)\<close> messages
  in all; and it ends with the user message of this request.
\<close>

theorem completion_request_window:
  assumes "validated req = Some v"
    and "ms = (case stored_context w (From v) of Some c \<Rightarrow> messages c | None \<Rightarrow> [system_message]) @
              [\<lparr>role = user, content = Body v\<rparr>]"
  shows "\<exists>p. openai_calls (snd (POST e req w)) = openai_calls w @ [p] \<and>
     messages_param p = drop (length ms - 6) ms \<and>
     length (messages_param p) = min 6 (length ms) \<and>
     length (messages_param p) \<le> 6 \<and>
     (length ms \<le> 6 \<longrightarrow> messages_param p = ms) \<and>
     suffix (messages_param p) ms \<and>
     messages_param p \<noteq> [] \<and>
     last (messages_param p) = \<lparr>role = user, content = Body v\<rparr>"
proof -
  obtain r w1 where g: "get_or_create (From v) (new_Date e) w = (r, w1)"
    by (cases "get_or_create (From v) (new_Date e) w")
  obtain aiResponse w5 where u: "update_context e v w = (aiResponse, w5)"
    by (cases "update_context e v w")
  have "openai_calls (snd (POST e req w)) = openai_calls w @ [completion_params (slice_last 6 ms)]"
    using POST_openai_calls[OF assms(1) u] update_context_world(5)[OF g u]
      stored_context_get_or_create[OF g] assms(2) by simp
  moreover have "messages_param (completion_params (slice_last 6 ms)) = drop (length ms - 6) ms"
    by (simp add: completion_params_def slice_last_def)
  moreover have "drop (length ms - 6) ms \<noteq> [] \<and>
      last (drop (length ms - 6) ms) = \<lparr>role = user, content = Body v\<rparr>"
    using assms(2) by auto
  ultimately show ?thesis
    by (auto simp: suffix_drop)
qed

theorem completion_request_window_witness:
  "(\<exists>p. openai_calls (snd (POST env_up hello_form_request initial_world)) = [p] \<and>
        messages_param p = [system_message, \<lparr>role = user, content = ''Hello''\<rparr>]) \<and>
   (\<exists>p. openai_calls (snd (POST env_up hello_form_request after_three_cycles)) =
          openai_calls after_three_cycles @ [p] \<and>
        messages_param p =
          [\<lparr>role = assistant, content = ''Hi there!''\<rparr>, \<lparr>role = user, content = ''Hello''\<rparr>,
           \<lparr>role = assistant, content = ''Hi there!''\<rparr>, \<lparr>role = user, content = ''Hello''\<rparr>,
           \<lparr>role = assistant, content = ''Hi there!''\<rparr>, \<lparr>role = user, content = ''Hello''\<rparr>])"
proof -
  let ?v = "\<lparr>Body = ''Hello'', From = ''whatsapp:+100''\<rparr>"
  have v: "validated hello_form_request = Some ?v"
    by (simp add: model_defs example_defs)
  have n: "stored_context (initial_world :: string world) ''whatsapp:+100'' = None"
    by (simp add: stored_context_def contextStore_get_def initial_world_def)
  have 1: "[system_message, \<lparr>role = user, content = ''Hello''\<rparr>] =
      (case stored_context (initial_world :: string world) (From ?v) of
         Some c \<Rightarrow> messages c | None \<Rightarrow> [system_message]) @
      [\<lparr>role = user, content = Body ?v\<rparr>]"
    by (simp add: n)
  have 2: "[system_message,
       \<lparr>role = user, content = ''Hello''\<rparr>, \<lparr>role = assistant, content = ''Hi there!''\<rparr>,
       \<lparr>role = user, content = ''Hello''\<rparr>, \<lparr>role = assistant, content = ''Hi there!''\<rparr>,
       \<lparr>role = user, content = ''Hello''\<rparr>, \<lparr>role = assistant, content = ''Hi there!''\<rparr>,
       \<lparr>role = user, content = ''Hello''\<rparr>] =
      (case stored_context after_three_cycles (From ?v) of
         Some c \<Rightarrow> messages c | None \<Rightarrow> [system_message]) @
      [\<lparr>role = user, content = Body ?v\<rparr>]"
    by (simp add: after_three_cycles_context)
  have a: "\<exists>p. openai_calls (snd (POST env_up hello_form_request initial_world)) = [p] \<and>
        messages_param p = [system_message, \<lparr>role = user, content = ''Hello''\<rparr>]"
    using completion_request_window[OF v 1, of env_up]
    by (auto simp: initial_world_def)
  have b: "\<exists>p. openai_calls (snd (POST env_up hello_form_request after_three_cycles)) =
          openai_calls after_three_cycles @ [p] \<and>
        messages_param p =
          [\<lparr>role = assistant, content = ''Hi there!''\<rparr>, \<lparr>role = user, content = ''Hello''\<rparr>,
           \<lparr>role = assistant, content = ''Hi there!''\<rparr>, \<lparr>role = user, content = ''Hello''\<rparr>,
           \<lparr>role = assistant, content = ''Hi there!''\<rparr>, \<lparr>role = user, content = ''Hello''\<rparr>]"
    using completion_request_window[OF v 2, of env_up]
    by auto
  from a b show ?thesis by simp
qed

section \<open>The stored context\<close>

text \<open>
  C6. For a sender with no context stored, after a cycle that ends with status 200 the
  context stored under the sender's key has exactly three messages: the system message,
  the user message with the inbound \<open>Body\<close>, and the assistant message with the text that was
  delivered.
\<close>

theorem fresh_key_three_messages:
  assumes "validated req = Some v"
    and "contextStore_get w (From v) = None"
    and "POST e req w = (Inr response, w')"
    and "status response = 200"
  shows "stored_context w' (From v) =
           Some \<lparr>id_ctx = From v,
                 messages =
                   [system_message,
                    \<lparr>role = user, content = Body v\<rparr>,
                    \<lparr>role = assistant, content = body_msg (last (twilio_calls w'))\<rparr>],
                 createdAt = new_Date e\<rparr> \<and>
         role system_message = system \<and>
         to_msg (last (twilio_calls w')) = From v"
proof -
  obtain aiResponse w5 where u: "update_context e v w = (aiResponse, w5)"
    by (cases "update_context e v w")
  have n: "stored_context w (From v) = None"
    using assms(2) by (simp add: stored_context_def)
  show ?thesis
  proof (cases "messages_create e (twilio_calls w) (reply_message e aiResponse (From v))")
    case (Inl msg)
    with assms(3,4) show ?thesis
      by (auto simp: POST_send_fails[OF assms(1) u Inl] POST_catch_Error)
  next
    case (Inr x)
    have w': "w' = w5\<lparr>twilio_calls := twilio_calls w @ [reply_message e aiResponse (From v)]\<rparr>"
      using assms(3) by (simp add: POST_send_ok[OF assms(1) u Inr])
    have "stored_context w' (From v) = stored_context w5 (From v)"
      by (simp add: w' stored_context_def contextStore_get_def)
    then show ?thesis
      using update_context_stored[OF u] n
      by (simp add: w' new_context_def reply_message_def role_system_message)
  qed
qed

theorem fresh_key_three_messages_witness:
  "stored_context (snd (POST env_up hello_form_request initial_world)) ''whatsapp:+100'' =
     Some \<lparr>id_ctx = ''whatsapp:+100'',
           messages =
             [system_message,
              \<lparr>role = user, content = ''Hello''\<rparr>,
              \<lparr>role = assistant, content = ''Hi there!''\<rparr>],
           createdAt = 1700000000000\<rparr>"
proof -
  have v: "validated hello_form_request = Some \<lparr>Body = ''Hello'', From = ''whatsapp:+100''\<rparr>"
    by (simp add: model_defs example_defs)
  have f: "contextStore_get (initial_world :: string world)
      (From \<lparr>Body = ''Hello'', From = ''whatsapp:+100''\<rparr>) = None"
    by (simp add: contextStore_get_def initial_world_def)
  obtain w' where p: "POST env_up hello_form_request initial_world =
      (Inr \<lparr>status = 200, json_body = Success_json None\<rparr>, w')"
    and t: "twilio_calls w' = [reply_message env_up ''Hi there!'' ''whatsapp:+100'']"
    by (simp add: model_defs example_defs Let_def)
  have s: "snd (POST env_up hello_form_request initial_world) = w'"
    using p by simp
  show ?thesis
    using fresh_key_three_messages[OF v f p] t unfolding s
    by (simp add: reply_message_def env_up_def)
qed

text \<open>
  C7. The invariant \<open>store_inv\<close> (every context in the map starts with the system
  message and has no other system entry) is kept by every request. So after the request
  every stored list starts with the system message, which is its only system entry; a list
  that was stored before is a prefix of the list stored now, and what was added has no
  system entry; and a context created for a new key has the system message as its only
  message.
\<close>

theorem system_entry_invariant:
  assumes "store_inv w"
  shows "store_inv (snd (POST e req w)) \<and>
     (\<forall>k c'. stored_context (snd (POST e req w)) k = Some c' \<longrightarrow>
        messages c' \<noteq> [] \<and> hd (messages c') = system_message \<and>
        filter (\<lambda>m'. role m' = system) (messages c') = [system_message]) \<and>
     (\<forall>k c. stored_context w k = Some c \<longrightarrow>
        (\<exists>c'. stored_context (snd (POST e req w)) k = Some c' \<and>
           prefix (messages c) (messages c') \<and>
           list_all (\<lambda>m'. role m' \<noteq> system) (drop (length (messages c)) (messages c')))) \<and>
     (\<forall>K now. contextStore_get w K = None \<longrightarrow>
        messages (heap (snd (get_or_create K now w)) (fst (get_or_create K now w))) =
          [system_message]) \<and>
     role system_message = system"
proof -
  have 1: "store_inv (snd (POST e req w))"
    by (rule POST_store_inv[OF assms])
  have 2: "messages c' \<noteq> [] \<and> hd (messages c') = system_message \<and>
        filter (\<lambda>m'. role m' = system) (messages c') = [system_message]"
    if "stored_context (snd (POST e req w)) k = Some c'" for k c'
    by (rule system_first_once[OF store_inv_stored[OF 1 that]])
  have 3: "\<exists>c'. stored_context (snd (POST e req w)) k = Some c' \<and>
           prefix (messages c) (messages c') \<and>
           list_all (\<lambda>m'. role m' \<noteq> system) (drop (length (messages c)) (messages c'))"
    if "stored_context w k = Some c" for k c
  proof -
    have a: "\<forall>k r. contextStore_get w k = Some r \<longrightarrow> r < next_ref w"
      using store_inv_allocated[OF assms] by blast
    from POST_grows[OF a that] show ?thesis by blast
  qed
  have 4: "messages (heap (snd (get_or_create K now w)) (fst (get_or_create K now w))) =
          [system_message]" if "contextStore_get w K = None" for K now
    by (simp add: get_or_create_None[OF that] new_context_def)
  from 1 2 3 4 show ?thesis by (simp add: role_system_message)
qed

theorem system_entry_invariant_witness:
  "store_inv after_three_cycles \<and>
   store_inv (snd (POST env_up other_form_request after_three_cycles)) \<and>
   (\<exists>c'. stored_context (snd (POST env_up other_form_request after_three_cycles)) ''whatsapp:+200'' =
            Some c' \<and> hd (messages c') = system_message \<and>
          filter (\<lambda>m'. role m' = system) (messages c') = [system_message])"
proof -
  have i: "store_inv after_three_cycles"
    using after_three_cycles_context after_three_cycles_store
    by (simp add: store_inv_def stored_context_def contextStore_get_def system_first_def
        system_message_def)
  have s: "\<exists>c'. stored_context (snd (POST env_up other_form_request after_three_cycles))
      ''whatsapp:+200'' = Some c'"
  proof -
    have v: "validated other_form_request = Some \<lparr>Body = ''Good morning'', From = ''whatsapp:+200''\<rparr>"
      by (simp add: model_defs example_defs)
    obtain a w5 where u: "update_context env_up \<lparr>Body = ''Good morning'', From = ''whatsapp:+200''\<rparr>
        after_three_cycles = (a, w5)"
      by (cases "update_context env_up \<lparr>Body = ''Good morning'', From = ''whatsapp:+200''\<rparr> after_three_cycles")
    show ?thesis
      using stored_context_POST[OF v u, of "''whatsapp:+200''"] update_context_stored[OF u]
      by simp
  qed
  from system_entry_invariant[OF i, of env_up other_form_request] s i
  show ?thesis by auto
qed

text \<open>
  C8. For every request that passes validation and whose primary send throws, the
  response is 500 and the context stored under the sender's key holds the user and the
  assistant message of this cycle, after what it held before (the system message, for a new
  key).
\<close>

theorem failed_send_keeps_context:
  assumes "validated req = Some v"
    and "update_context e v w = (aiResponse, w5)"
    and "messages_create e (twilio_calls w) (reply_message e aiResponse (From v)) = Inl msg"
  shows "\<exists>response w' c'. POST e req w = (Inr response, w') \<and> status response = 500 \<and>
     stored_context w' (From v) = Some c' \<and>
     messages c' =
       (case stored_context w (From v) of Some c \<Rightarrow> messages c | None \<Rightarrow> [system_message]) @
       [\<lparr>role = user, content = Body v\<rparr>, \<lparr>role = assistant, content = aiResponse\<rparr>]"
proof -
  obtain response w' where p: "POST e req w = (response, w')"
    by (cases "POST e req w")
  have r: "response = Inr \<lparr>status = 500, json_body = Error_json ''Internal server error'' None\<rparr>"
    using p by (simp add: POST_send_fails[OF assms] POST_catch_Error)
  have "stored_context w' (From v) = stored_context w5 (From v)"
    using stored_context_POST[OF assms(1,2), of "From v"] p by simp
  then show ?thesis
    using update_context_stored[OF assms(2)] p r by simp
qed

theorem failed_send_keeps_context_witness:
  "\<exists>response w' c'. POST env_twilio_down hello_form_request initial_world = (Inr response, w') \<and>
     status response = 500 \<and>
     stored_context w' ''whatsapp:+100'' = Some c' \<and>
     messages c' =
       [system_message, \<lparr>role = user, content = ''Hello''\<rparr>,
        \<lparr>role = assistant, content = ''Hi there!''\<rparr>]"
proof -
  have v: "validated hello_form_request = Some \<lparr>Body = ''Hello'', From = ''whatsapp:+100''\<rparr>"
    by (simp add: model_defs example_defs)
  obtain w5 where u: "update_context env_twilio_down \<lparr>Body = ''Hello'', From = ''whatsapp:+100''\<rparr>
      (initial_world :: string world) = (''Hi there!'', w5)"
    by (simp add: model_defs example_defs Let_def)
  have m: "messages_create env_twilio_down (twilio_calls (initial_world :: string world))
      (reply_message env_twilio_down ''Hi there!'' (From \<lparr>Body = ''Hello'', From = ''whatsapp:+100''\<rparr>))
      = Inl ''Authenticate''"
    by (simp add: example_defs)
  have n: "stored_context (initial_world :: string world) ''whatsapp:+100'' = None"
    by (simp add: stored_context_def contextStore_get_def initial_world_def)
  show ?thesis
    using failed_send_keeps_context[OF v u m] by (simp add: n)
qed

text \<open>
  C9, as the claim states it, fails for one sender: a message from \<open>whatsapp:+1234567890\<close>
  passes validation, and when its primary send throws, the apology goes to the constant of
  the \<open>catch\<close> clause, which is this sender.
\<close>

theorem apology_to_sender_counterexample:
  "validated fallback_number_form_request =
     Some \<lparr>Body = ''Hello'', From = ''whatsapp:+1234567890''\<rparr> \<and>
   fst (POST env_twilio_down fallback_number_form_request initial_world) =
     Inr \<lparr>status = 500, json_body = Error_json ''Internal server error'' None\<rparr> \<and>
   last (twilio_calls (snd (POST env_twilio_down fallback_number_form_request initial_world))) =
     \<lparr>from_msg = ''whatsapp:+14155238886'',
      body_msg = ''Sorry, I encountered an error processing your request.'',
      to_msg = ''whatsapp:+1234567890''\<rparr> \<and>
   to_msg (last (twilio_calls (snd (POST env_twilio_down fallback_number_form_request initial_world)))) =
     From \<lparr>Body = ''Hello'', From = ''whatsapp:+1234567890''\<rparr>"
  by (simp add: model_defs example_defs Let_def)

text \<open>
  C9, amended. Whenever the handler answers 500, the last messaging call it made is the
  apology, and its destination is the constant \<open>whatsapp:+1234567890\<close>, whatever the request
  says: it is the sender of a validated request exactly when that sender is this very
  number.
\<close>

theorem apology_destination:
  assumes "POST e req w = (Inr response, w')"
    and "status response = 500"
  shows "\<exists>calls. twilio_calls w' = calls @ [apology_message e] \<and>
     to_msg (apology_message e) = ''whatsapp:+1234567890'' \<and>
     (\<forall>v. validated req = Some v \<longrightarrow>
        (to_msg (last (twilio_calls w')) = From v \<longleftrightarrow> From v = ''whatsapp:+1234567890''))"
proof (cases "validated req")
  case None
  show ?thesis
  proof (cases "formData req")
    case (Inl msg)
    with assms None show ?thesis
      by (auto simp: POST_unreadable[OF Inl] POST_catch_Error console_error_def apology_message_def
          split: sum.splits)
  next
    case (Inr entries)
    from POST_invalid[OF Inr None, of e w] assms show ?thesis by auto
  qed
next
  case (Some v)
  obtain aiResponse w5 where u: "update_context e v w = (aiResponse, w5)"
    by (cases "update_context e v w")
  show ?thesis
  proof (cases "messages_create e (twilio_calls w) (reply_message e aiResponse (From v))")
    case (Inl msg)
    with assms Some show ?thesis
      by (auto simp: POST_send_fails[OF Some u Inl] POST_catch_Error console_error_def
          apology_message_def split: sum.splits)
  next
    case (Inr x)
    with assms show ?thesis by (auto simp: POST_send_ok[OF Some u Inr])
  qed
qed

theorem apology_destination_witness:
  "to_msg (last (twilio_calls (snd (POST env_twilio_down hello_form_request initial_world)))) =
     ''whatsapp:+1234567890'' \<and>
   to_msg (last (twilio_calls (snd (POST env_twilio_down hello_form_request initial_world)))) \<noteq>
     ''whatsapp:+100''"
proof -
  obtain w' where p: "POST env_twilio_down hello_form_request initial_world =
      (Inr \<lparr>status = 500, json_body = Error_json ''Internal server error'' None\<rparr>, w')"
    by (simp add: model_defs example_defs Let_def)
  have s: "snd (POST env_twilio_down hello_form_request initial_world) = w'"
    using p by simp
  from apology_destination[OF p] show ?thesis
    unfolding s by auto
qed

text \<open>
  C10. In a world where the map is well formed (\<open>store_wf\<close>, which holds at the start
  and is kept by every request), a request changes no context stored under a key other
  than its sender's, and a context that was stored keeps its \<open>id\<close> and \<open>createdAt\<close>, its list
  only growing at the end.
\<close>

theorem request_frame:
  assumes "store_wf w"
  shows "(\<forall>k. (\<forall>v. validated req = Some v \<longrightarrow> k \<noteq> From v) \<longrightarrow>
        stored_context (snd (POST e req w)) k = stored_context w k) \<and>
     (\<forall>k c. stored_context w k = Some c \<longrightarrow>
        (\<exists>c'. stored_context (snd (POST e req w)) k = Some c' \<and>
           id_ctx c' = id_ctx c \<and> createdAt c' = createdAt c \<and>
           prefix (messages c) (messages c'))) \<and>
     store_wf (snd (POST e req w))"
proof -
  have 1: "stored_context (snd (POST e req w)) k = stored_context w k"
    if "\<forall>v. validated req = Some v \<longrightarrow> k \<noteq> From v" for k
  proof (cases "validated req")
    case None
    show ?thesis
      by (rule stored_context_fields[OF POST_store_not_validated(1,2)[OF None]])
  next
    case (Some v)
    obtain aiResponse w5 where u: "update_context e v w = (aiResponse, w5)"
      by (cases "update_context e v w")
    from that Some have "k \<noteq> From v" by simp
    from update_context_frame[OF assms u this] show ?thesis
      by (simp add: stored_context_POST[OF Some u])
  qed
  have 2: "\<exists>c'. stored_context (snd (POST e req w)) k = Some c' \<and>
           id_ctx c' = id_ctx c \<and> createdAt c' = createdAt c \<and>
           prefix (messages c) (messages c')"
    if "stored_context w k = Some c" for k c
  proof -
    have a: "\<forall>k r. contextStore_get w k = Some r \<longrightarrow> r < next_ref w"
      using store_wf_allocated[OF assms] by blast
    from POST_grows[OF a that] show ?thesis by blast
  qed
  from 1 2 POST_store_wf[OF assms] show ?thesis by simp
qed

theorem request_frame_witness:
  "store_wf after_three_cycles \<and>
   stored_context (snd (POST env_up other_form_request after_three_cycles)) ''whatsapp:+100'' =
     stored_context after_three_cycles ''whatsapp:+100'' \<and>
   (\<exists>c'. stored_context (snd (POST env_up hello_form_request after_three_cycles)) ''whatsapp:+100'' =
            Some c' \<and> id_ctx c' = ''whatsapp:+100'' \<and> createdAt c' = 1700000000000)"
proof -
  have i: "store_wf after_three_cycles"
    using after_three_cycles_store by (simp add: store_wf_def)
  have v: "validated other_form_request = Some \<lparr>Body = ''Good morning'', From = ''whatsapp:+200''\<rparr>"
    by (simp add: model_defs example_defs)
  have k: "\<forall>v. validated other_form_request = Some v \<longrightarrow> ''whatsapp:+100'' \<noteq> From v"
    by (simp add: v)
  from request_frame[OF i, of other_form_request env_up] k
  have 1: "stored_context (snd (POST env_up other_form_request after_three_cycles)) ''whatsapp:+100'' =
     stored_context after_three_cycles ''whatsapp:+100''"
    by blast
  from request_frame[OF i, of hello_form_request env_up, THEN conjunct2, THEN conjunct1,
      rule_format, OF after_three_cycles_context]
  have 2: "\<exists>c'. stored_context (snd (POST env_up hello_form_request after_three_cycles)) ''whatsapp:+100'' =
            Some c' \<and> id_ctx c' = ''whatsapp:+100'' \<and> createdAt c' = 1700000000000"
    by auto
  from i 1 2 show ?thesis by simp
qed

end
